theory Spec2Isabelle
  imports Main "HOL-Library.Multiset"
begin

section \<open>Strings as the handlers use them\<close>

text \<open>
  The components compare and build JavaScript strings. They are modelled as \<open>string\<close>
  over ASCII; \<open>toLowerCase\<close> maps the letters A to Z and leaves every other character
  alone (the Unicode case mapping of the browser is not modelled). \<open>a || b\<close> on strings
  takes \<open>b\<close> exactly when \<open>a\<close> is the empty string.
\<close>

definition lowerChar :: "char \<Rightarrow> char" where
  "lowerChar c =
     (case map_of (zip ''ABCDEFGHIJKLMNOPQRSTUVWXYZ'' ''abcdefghijklmnopqrstuvwxyz'') c of
        Some d \<Rightarrow> d
      | None \<Rightarrow> c)"

definition toLowerCase :: "string \<Rightarrow> string" where
  "toLowerCase s = map lowerChar s"

fun includesStr :: "string \<Rightarrow> string \<Rightarrow> bool" where
  "includesStr [] q = (q = [])"
| "includesStr (c # cs) q = (take (length q) (c # cs) = q \<or> includesStr cs q)"

definition orElse :: "string \<Rightarrow> string \<Rightarrow> string" where
  "orElse a b = (if a = [] then b else a)"

definition truthy :: "string option \<Rightarrow> bool" where
  "truthy x = (case x of None \<Rightarrow> False | Some s \<Rightarrow> s \<noteq> [])"

section \<open>The backend behind the SDK\<close>

text \<open>
  The document store and the blob store are not code of this repository. A call into
  their SDK is modelled as an action that either rejects with an error code, leaving the
  backend as it was, or resolves with its documented effect. Which of the two happens is
  an input of every handler (its outcome record), so each \<open>catch\<close> of the source is a
  branch of the model. Documents are kept per entity type as pairs of collection path and
  item; the item carries the document id, as the snapshot mapping of the dashboard does.
  A timestamp is a natural number.
\<close>

record FolderItem =
  folder_id :: string
  folder_name :: string
  folder_createdAt :: nat

record FileItem =
  file_id :: string
  file_name :: string
  file_size :: nat
  file_type :: string
  file_folderId :: "string option"
  file_storagePath :: string
  file_downloadURL :: string
  file_createdAt :: nat

record NoteItem =
  note_id :: string
  note_title :: string
  note_content :: string
  note_createdAt :: nat

record MemberItem =
  member_id :: string
  member_name :: string
  member_role :: string
  member_createdAt :: nat

record backend =
  folderDocs :: "(string \<times> FolderItem) list"
  fileDocs :: "(string \<times> FileItem) list"
  noteDocs :: "(string \<times> NoteItem) list"
  memberDocs :: "(string \<times> MemberItem) list"
  blobs :: "string list"

datatype CollName = Folders | Files | Notes | TeamMembers

fun collName :: "CollName \<Rightarrow> string" where
  "collName Folders = ''folders''"
| "collName Files = ''files''"
| "collName Notes = ''notes''"
| "collName TeamMembers = ''teamMembers''"

definition removeDoc :: "('a \<Rightarrow> string) \<Rightarrow> string \<Rightarrow> string \<Rightarrow> (string \<times> 'a) list \<Rightarrow> (string \<times> 'a) list" where
  "removeDoc ident path i ds = filter (\<lambda>d. \<not> (fst d = path \<and> ident (snd d) = i)) ds"

text \<open>\<open>deleteDoc(doc(db, path, id))\<close> when it resolves: the document at that path with that id is gone.\<close>

fun deleteDoc :: "CollName \<Rightarrow> string \<Rightarrow> string \<Rightarrow> backend \<Rightarrow> backend" where
  "deleteDoc Folders path i b = b\<lparr>folderDocs := removeDoc folder_id path i (folderDocs b)\<rparr>"
| "deleteDoc Files path i b = b\<lparr>fileDocs := removeDoc file_id path i (fileDocs b)\<rparr>"
| "deleteDoc Notes path i b = b\<lparr>noteDocs := removeDoc note_id path i (noteDocs b)\<rparr>"
| "deleteDoc TeamMembers path i b = b\<lparr>memberDocs := removeDoc member_id path i (memberDocs b)\<rparr>"

text \<open>\<open>deleteObject(ref(storage, path))\<close> when it resolves: no object is left at that path.\<close>

definition deleteObject :: "string \<Rightarrow> backend \<Rightarrow> backend" where
  "deleteObject path b = b\<lparr>blobs := removeAll path (blobs b)\<rparr>"

text \<open>
  \<open>query(collection(db, path), orderBy('createdAt', 'desc'))\<close>: the documents of that
  collection path, newest first. Two things of the store are outside this stand-in: among
  equal timestamps the store orders by document id, where the stand-in keeps the reverse
  of the stored order; and the store leaves out a document that has no \<open>createdAt\<close>
  field, where every item here has one.
\<close>

definition queryCreatedAtDesc :: "('a \<Rightarrow> nat) \<Rightarrow> string \<Rightarrow> (string \<times> 'a) list \<Rightarrow> 'a list" where
  "queryCreatedAtDesc createdAt path ds =
     rev (sort_key createdAt (map snd (filter (\<lambda>d. fst d = path) ds)))"

section \<open>The store-backed dashboard\<close>

text \<open>
  The dashboard component that talks to the document store and the blob store. Its state
  is the record \<open>Dashboard\<close>: the signed-in user's id (or none) from the auth context and
  one field per \<open>useState\<close>. A handler is a function of the state it was rendered with,
  the backend, and the outcome of its SDK calls; it returns the state after its
  \<open>set...\<close> calls, the backend after the calls that resolved, and the calls in program
  order. Callbacks that run while a handler is suspended at an \<open>await\<close> are events of their
  own and are not interleaved with it.
\<close>

datatype TabView = Overview | FilesTab | NotesTab | TeamTab

datatype ModalType = FolderModal | FileModal | NoteModal | MemberModal

record DeleteConfirmation =
  dc_id :: string
  dc_type :: CollName
  dc_name :: string
  dc_storagePath :: "string option"

record SelectedFile =
  sf_name :: string
  sf_size :: nat
  sf_type :: string

record FormData =
  fd_name :: string
  fd_title :: string
  fd_content :: string
  fd_role :: string

text \<open>
  \<open>uploadProgress\<close> is a floating-point percentage in the source; the model keeps the two
  byte counts it is computed from.
\<close>

datatype Progress = ProgressZero | ProgressOf nat nat

record Dashboard =
  user :: "string option"
  folders :: "FolderItem list"
  files :: "FileItem list"
  notes' :: "NoteItem list"
  members :: "MemberItem list"
  activeTab :: TabView
  currentFolderId :: "string option"
  isLoading :: bool
  isSubmitting :: bool
  uploadProgress :: Progress
  searchQuery :: string
  isUpgradeModalOpen :: bool
  modalOpen :: "ModalType option"
  deleteConfirmation :: "DeleteConfirmation option"
  selectedFile :: "SelectedFile option"
  formData :: FormData

datatype effect =
    AddDoc string
  | UploadBytes string
  | GetDownloadURL string
  | DeleteObject string
  | DeleteDoc string string
  | ConsoleError string

text \<open>
  What a handler leaves behind: the component state, the backend, the SDK calls and console
  messages in the order they were issued, and whether the handler's promise settled.
\<close>

record run =
  r_state :: Dashboard
  r_backend :: backend
  r_effects :: "effect list"
  r_settled :: bool

definition FILE_LIMIT :: nat where
  "FILE_LIMIT = 5"

definition hasReachedLimit :: "Dashboard \<Rightarrow> bool" where
  "hasReachedLimit st = (length (files st) \<ge> FILE_LIMIT)"

definition emptyForm :: FormData where
  "emptyForm = \<lparr>fd_name = [], fd_title = [], fd_content = [], fd_role = ''Viewer''\<rparr>"

definition settled :: "Dashboard \<Rightarrow> backend \<Rightarrow> effect list \<Rightarrow> run" where
  "settled st b es = \<lparr>r_state = st, r_backend = b, r_effects = es, r_settled = True\<rparr>"

definition pending :: "Dashboard \<Rightarrow> backend \<Rightarrow> effect list \<Rightarrow> run" where
  "pending st b es = \<lparr>r_state = st, r_backend = b, r_effects = es, r_settled = False\<rparr>"

subsection \<open>confirmDeletion\<close>

record delete_outcome =
  oc_deleteObject :: "string option"
  oc_deleteDoc :: "string option"

text \<open>The record step: \<open>await deleteDoc(...)\<close>, then \<open>setDeleteConfirmation(null)\<close>.\<close>

definition deleteRecord :: "delete_outcome \<Rightarrow> string \<Rightarrow> DeleteConfirmation \<Rightarrow> Dashboard \<Rightarrow> backend \<Rightarrow> effect list \<Rightarrow> run" where
  "deleteRecord oc uid dc st b es =
     (let path = ''users/'' @ uid @ ''/'' @ collName (dc_type dc) in
      (case oc_deleteDoc oc of
         Some err \<Rightarrow>
           settled (st\<lparr>isSubmitting := False\<rparr>) b
             (es @ [DeleteDoc path (dc_id dc), ConsoleError err])
       | None \<Rightarrow>
           settled (st\<lparr>deleteConfirmation := None, isSubmitting := False\<rparr>)
             (deleteDoc (dc_type dc) path (dc_id dc) b)
             (es @ [DeleteDoc path (dc_id dc)])))"

text \<open>
  The blob step runs when the confirmation is for a file and carries a non-empty storage
  path (\<open>type === 'files' && storagePath\<close>); a rejection there skips the record step.
\<close>

definition confirmDeletion :: "delete_outcome \<Rightarrow> Dashboard \<Rightarrow> backend \<Rightarrow> run" where
  "confirmDeletion oc st b =
     (case user st of
        None \<Rightarrow> settled st b []
      | Some uid \<Rightarrow>
     (case deleteConfirmation st of
        None \<Rightarrow> settled st b []
      | Some dc \<Rightarrow>
     (case dc_storagePath dc of
        None \<Rightarrow> deleteRecord oc uid dc st b []
      | Some p \<Rightarrow>
          if dc_type dc = Files \<and> p \<noteq> []
          then
            (case oc_deleteObject oc of
               Some err \<Rightarrow>
                 settled (st\<lparr>isSubmitting := False\<rparr>) b [DeleteObject p, ConsoleError err]
             | None \<Rightarrow> deleteRecord oc uid dc st (deleteObject p b) [DeleteObject p])
          else deleteRecord oc uid dc st b [])))"

subsection \<open>handleCreate\<close>

text \<open>
  \<open>oc_tempId\<close> is the id that \<open>doc(collection(db, 'temp')).id\<close> generates, \<open>oc_progress\<close> the
  \<open>state_changed\<close> snapshots of the upload task (bytes transferred, total bytes), and
  \<open>oc_addDoc\<close> resolves with the generated document id and the server's timestamp.
  When \<open>getDownloadURL\<close> or \<open>addDoc\<close> rejects inside the completion callback of the upload,
  the promise the handler awaits is neither resolved nor rejected: the handler never
  resumes, which is \<open>r_settled = False\<close>.
\<close>

record create_outcome =
  oc_addDoc :: "string + (string \<times> nat)"
  oc_tempId :: string
  oc_progress :: "(nat \<times> nat) list"
  oc_upload :: "string option"
  oc_getDownloadURL :: "string + string"

definition afterCreate :: "Dashboard \<Rightarrow> Dashboard" where
  "afterCreate st =
     st\<lparr>modalOpen := None, formData := emptyForm, selectedFile := None,
        uploadProgress := ProgressZero, isSubmitting := False\<rparr>"

definition reportProgress :: "(nat \<times> nat) list \<Rightarrow> Dashboard \<Rightarrow> Dashboard" where
  "reportProgress ps st =
     st\<lparr>uploadProgress := foldl (\<lambda>p s. ProgressOf (fst s) (snd s)) (uploadProgress st) ps\<rparr>"

definition createFolder :: "create_outcome \<Rightarrow> string \<Rightarrow> Dashboard \<Rightarrow> backend \<Rightarrow> run" where
  "createFolder oc basePath st b =
     (case oc_addDoc oc of
        Inl err \<Rightarrow>
          settled (st\<lparr>isSubmitting := False\<rparr>) b
            [AddDoc (basePath @ ''/folders''), ConsoleError err]
      | Inr (i, t) \<Rightarrow>
          settled (afterCreate st)
            (b\<lparr>folderDocs := folderDocs b @
                 [(basePath @ ''/folders'',
                   \<lparr>folder_id = i,
                    folder_name = orElse (fd_name (formData st)) ''Untitled Folder'',
                    folder_createdAt = t\<rparr>)]\<rparr>)
            [AddDoc (basePath @ ''/folders'')])"

definition createNote :: "create_outcome \<Rightarrow> string \<Rightarrow> Dashboard \<Rightarrow> backend \<Rightarrow> run" where
  "createNote oc basePath st b =
     (case oc_addDoc oc of
        Inl err \<Rightarrow>
          settled (st\<lparr>isSubmitting := False\<rparr>) b
            [AddDoc (basePath @ ''/notes''), ConsoleError err]
      | Inr (i, t) \<Rightarrow>
          settled (afterCreate st)
            (b\<lparr>noteDocs := noteDocs b @
                 [(basePath @ ''/notes'',
                   \<lparr>note_id = i,
                    note_title = orElse (fd_title (formData st)) ''Untitled Note'',
                    note_content = fd_content (formData st),
                    note_createdAt = t\<rparr>)]\<rparr>)
            [AddDoc (basePath @ ''/notes'')])"

definition createMember :: "create_outcome \<Rightarrow> string \<Rightarrow> Dashboard \<Rightarrow> backend \<Rightarrow> run" where
  "createMember oc basePath st b =
     (case oc_addDoc oc of
        Inl err \<Rightarrow>
          settled (st\<lparr>isSubmitting := False\<rparr>) b
            [AddDoc (basePath @ ''/teamMembers''), ConsoleError err]
      | Inr (i, t) \<Rightarrow>
          settled (afterCreate st)
            (b\<lparr>memberDocs := memberDocs b @
                 [(basePath @ ''/teamMembers'',
                   \<lparr>member_id = i,
                    member_name = fd_name (formData st),
                    member_role = fd_role (formData st),
                    member_createdAt = t\<rparr>)]\<rparr>)
            [AddDoc (basePath @ ''/teamMembers'')])"

definition createFile :: "create_outcome \<Rightarrow> string \<Rightarrow> string \<Rightarrow> Dashboard \<Rightarrow> backend \<Rightarrow> run" where
  "createFile oc uid basePath st b =
     (case selectedFile st of
        None \<Rightarrow> settled (st\<lparr>isSubmitting := False\<rparr>) b []
      | Some f \<Rightarrow>
          if hasReachedLimit st
          then settled (st\<lparr>isUpgradeModalOpen := True, isSubmitting := False\<rparr>) b []
          else
            let storagePath = ''user_uploads/'' @ uid @ ''/'' @ oc_tempId oc @ ''-'' @ sf_name f;
                st1 = reportProgress (oc_progress oc) st
            in
            (case oc_upload oc of
               Some err \<Rightarrow>
                 settled (st1\<lparr>isSubmitting := False\<rparr>) b
                   [UploadBytes storagePath, ConsoleError err]
             | None \<Rightarrow>
                 let b1 = b\<lparr>blobs := List.insert storagePath (blobs b)\<rparr> in
                 (case oc_getDownloadURL oc of
                    Inl err \<Rightarrow>
                      pending (st1\<lparr>isSubmitting := True\<rparr>) b1
                        [UploadBytes storagePath, GetDownloadURL storagePath]
                  | Inr url \<Rightarrow>
                      (case oc_addDoc oc of
                         Inl err \<Rightarrow>
                           pending (st1\<lparr>isSubmitting := True\<rparr>) b1
                             [UploadBytes storagePath, GetDownloadURL storagePath,
                              AddDoc (basePath @ ''/files'')]
                       | Inr (i, t) \<Rightarrow>
                           settled (afterCreate st1)
                             (b1\<lparr>fileDocs := fileDocs b1 @
                                  [(basePath @ ''/files'',
                                    \<lparr>file_id = i,
                                     file_name = sf_name f,
                                     file_size = sf_size f,
                                     file_type = sf_type f,
                                     file_folderId = currentFolderId st,
                                     file_storagePath = storagePath,
                                     file_downloadURL = url,
                                     file_createdAt = t\<rparr>)]\<rparr>)
                             [UploadBytes storagePath, GetDownloadURL storagePath,
                              AddDoc (basePath @ ''/files'')]))))"

definition handleCreate :: "create_outcome \<Rightarrow> Dashboard \<Rightarrow> backend \<Rightarrow> run" where
  "handleCreate oc st b =
     (case user st of
        None \<Rightarrow> settled st b []
      | Some uid \<Rightarrow>
     (case modalOpen st of
        None \<Rightarrow> settled st b []
      | Some FolderModal \<Rightarrow> createFolder oc (''users/'' @ uid) st b
      | Some FileModal \<Rightarrow> createFile oc uid (''users/'' @ uid) st b
      | Some NoteModal \<Rightarrow> createNote oc (''users/'' @ uid) st b
      | Some MemberModal \<Rightarrow> createMember oc (''users/'' @ uid) st b))"

subsection \<open>The live listeners\<close>

text \<open>
  Each \<open>onSnapshot\<close> callback replaces one array by the current result of its query. The
  listeners exist only while a user is signed in.
\<close>

definition collectionPath :: "string \<Rightarrow> CollName \<Rightarrow> string" where
  "collectionPath uid c = ''users/'' @ uid @ ''/'' @ collName c"

definition onSnapshotFolders :: "backend \<Rightarrow> Dashboard \<Rightarrow> Dashboard" where
  "onSnapshotFolders b st =
     (case user st of
        None \<Rightarrow> st
      | Some uid \<Rightarrow>
          st\<lparr>folders := queryCreatedAtDesc folder_createdAt (collectionPath uid Folders) (folderDocs b)\<rparr>)"

definition onSnapshotFiles :: "backend \<Rightarrow> Dashboard \<Rightarrow> Dashboard" where
  "onSnapshotFiles b st =
     (case user st of
        None \<Rightarrow> st
      | Some uid \<Rightarrow>
          st\<lparr>files := queryCreatedAtDesc file_createdAt (collectionPath uid Files) (fileDocs b)\<rparr>)"

definition onSnapshotNotes :: "backend \<Rightarrow> Dashboard \<Rightarrow> Dashboard" where
  "onSnapshotNotes b st =
     (case user st of
        None \<Rightarrow> st
      | Some uid \<Rightarrow>
          st\<lparr>notes' := queryCreatedAtDesc note_createdAt (collectionPath uid Notes) (noteDocs b)\<rparr>)"

definition onSnapshotMembers :: "backend \<Rightarrow> Dashboard \<Rightarrow> Dashboard" where
  "onSnapshotMembers b st =
     (case user st of
        None \<Rightarrow> st
      | Some uid \<Rightarrow>
          st\<lparr>members := queryCreatedAtDesc member_createdAt (collectionPath uid TeamMembers) (memberDocs b),
             isLoading := False\<rparr>)"

subsection \<open>Search and rendering\<close>

definition filteredFiles :: "Dashboard \<Rightarrow> FileItem list" where
  "filteredFiles st =
     filter (\<lambda>f. (if truthy (currentFolderId st)
                  then file_folderId f = currentFolderId st
                  else \<not> truthy (file_folderId f))
                \<and> includesStr (toLowerCase (file_name f)) (toLowerCase (searchQuery st)))
       (files st)"

definition filteredFolders :: "Dashboard \<Rightarrow> FolderItem list" where
  "filteredFolders st =
     filter (\<lambda>f. \<not> truthy (currentFolderId st)
                \<and> includesStr (toLowerCase (folder_name f)) (toLowerCase (searchQuery st)))
       (folders st)"

text \<open>The items each tab's render function puts on the page.\<close>

definition renderFiles :: "Dashboard \<Rightarrow> FolderItem list \<times> FileItem list" where
  "renderFiles st = (filteredFolders st, filteredFiles st)"

definition renderNotes :: "Dashboard \<Rightarrow> NoteItem list" where
  "renderNotes st = notes' st"

definition renderTeam :: "Dashboard \<Rightarrow> MemberItem list" where
  "renderTeam st = members st"

text \<open>The four arrays the listeners fill.\<close>

definition collections :: "Dashboard \<Rightarrow> FolderItem list \<times> FileItem list \<times> NoteItem list \<times> MemberItem list" where
  "collections st = (folders st, files st, notes' st, members st)"

subsection \<open>Everything that can happen to the dashboard\<close>

text \<open>
  One event per callback of the component: the two mutation handlers with the outcome of
  their SDK calls, the four snapshot callbacks, and the click and input handlers of the
  markup. \<open>step\<close> runs one of them on the component state and the backend. What the
  markup forbids (a disabled button, a required field) is not modelled: every callback
  may run in every state. \<open>handleSignOut\<close> leaves the page and is not an event here.
\<close>

datatype event =
    Submit create_outcome
  | ConfirmDelete delete_outcome
  | SnapshotFolders
  | SnapshotFiles
  | SnapshotNotes
  | SnapshotMembers
  | ClickTab TabView
  | ViewAll TabView
  | ClickRoot
  | OpenFolder FolderItem
  | AskDeleteFolder FolderItem
  | AskDeleteFile FileItem
  | AskDeleteNote NoteItem
  | AskDeleteMember MemberItem
  | CancelDelete
  | OpenModal ModalType
  | CloseModal
  | ClickBackdrop
  | TypeSearch string
  | TypeName string
  | TypeTitle string
  | TypeContent string
  | ChooseRole string
  | ChooseFile "SelectedFile option"
  | OpenUpgrade
  | CloseUpgrade

fun isSnapshot :: "event \<Rightarrow> bool" where
  "isSnapshot SnapshotFolders = True"
| "isSnapshot SnapshotFiles = True"
| "isSnapshot SnapshotNotes = True"
| "isSnapshot SnapshotMembers = True"
| "isSnapshot _ = False"

fun step :: "event \<Rightarrow> Dashboard \<times> backend \<Rightarrow> Dashboard \<times> backend" where
  "step (Submit oc) (st, b) = (r_state (handleCreate oc st b), r_backend (handleCreate oc st b))"
| "step (ConfirmDelete oc) (st, b) =
     (r_state (confirmDeletion oc st b), r_backend (confirmDeletion oc st b))"
| "step SnapshotFolders (st, b) = (onSnapshotFolders b st, b)"
| "step SnapshotFiles (st, b) = (onSnapshotFiles b st, b)"
| "step SnapshotNotes (st, b) = (onSnapshotNotes b st, b)"
| "step SnapshotMembers (st, b) = (onSnapshotMembers b st, b)"
| "step (ClickTab t) (st, b) = (st\<lparr>activeTab := t, currentFolderId := None\<rparr>, b)"
| "step (ViewAll t) (st, b) = (st\<lparr>activeTab := t\<rparr>, b)"
| "step ClickRoot (st, b) = (st\<lparr>currentFolderId := None\<rparr>, b)"
| "step (OpenFolder f) (st, b) = (st\<lparr>currentFolderId := Some (folder_id f)\<rparr>, b)"
| "step (AskDeleteFolder f) (st, b) =
     (st\<lparr>deleteConfirmation :=
          Some \<lparr>dc_id = folder_id f, dc_type = Folders, dc_name = folder_name f,
                dc_storagePath = None\<rparr>\<rparr>, b)"
| "step (AskDeleteFile f) (st, b) =
     (st\<lparr>deleteConfirmation :=
          Some \<lparr>dc_id = file_id f, dc_type = Files, dc_name = file_name f,
                dc_storagePath = Some (file_storagePath f)\<rparr>\<rparr>, b)"
| "step (AskDeleteNote n) (st, b) =
     (st\<lparr>deleteConfirmation :=
          Some \<lparr>dc_id = note_id n, dc_type = Notes, dc_name = note_title n,
                dc_storagePath = None\<rparr>\<rparr>, b)"
| "step (AskDeleteMember m) (st, b) =
     (st\<lparr>deleteConfirmation :=
          Some \<lparr>dc_id = member_id m, dc_type = TeamMembers, dc_name = member_name m,
                dc_storagePath = None\<rparr>\<rparr>, b)"
| "step CancelDelete (st, b) = (st\<lparr>deleteConfirmation := None\<rparr>, b)"
| "step (OpenModal m) (st, b) = (st\<lparr>modalOpen := Some m\<rparr>, b)"
| "step CloseModal (st, b) = (st\<lparr>modalOpen := None\<rparr>, b)"
| "step ClickBackdrop (st, b) = (if isSubmitting st then st else st\<lparr>modalOpen := None\<rparr>, b)"
| "step (TypeSearch q) (st, b) = (st\<lparr>searchQuery := q\<rparr>, b)"
| "step (TypeName x) (st, b) = (st\<lparr>formData := (formData st)\<lparr>fd_name := x\<rparr>\<rparr>, b)"
| "step (TypeTitle x) (st, b) = (st\<lparr>formData := (formData st)\<lparr>fd_title := x\<rparr>\<rparr>, b)"
| "step (TypeContent x) (st, b) = (st\<lparr>formData := (formData st)\<lparr>fd_content := x\<rparr>\<rparr>, b)"
| "step (ChooseRole x) (st, b) = (st\<lparr>formData := (formData st)\<lparr>fd_role := x\<rparr>\<rparr>, b)"
| "step (ChooseFile f) (st, b) = (st\<lparr>selectedFile := f\<rparr>, b)"
| "step OpenUpgrade (st, b) = (st\<lparr>isUpgradeModalOpen := True\<rparr>, b)"
| "step CloseUpgrade (st, b) = (st\<lparr>isUpgradeModalOpen := False\<rparr>, b)"

section \<open>The local dashboard page\<close>

text \<open>
  \<open>src/pages/Dashboard.tsx\<close> keeps folders and files in component state only (no document
  store, no blob store). Its \<open>handleCreate\<close> reads the clock twice; both readings are
  inputs. The 800 ms delay it awaits first is not modelled, and \<open>LocalDashboard\<close> has the
  state that \<open>handleCreate\<close> reads or writes.
\<close>

record LocalFile =
  lf_id :: string
  lf_name :: string
  lf_size :: nat
  lf_type :: string
  lf_mimeType :: string
  lf_folderId :: "string option"
  lf_downloadURL :: string
  lf_createdAt :: nat

record LocalFolder =
  lfo_id :: string
  lfo_name :: string
  lfo_parentId :: "string option"
  lfo_createdAt :: nat

datatype LocalModal = LocalFolderModal | LocalFileModal

record LocalDashboard =
  l_folders :: "LocalFolder list"
  l_files :: "LocalFile list"
  l_currentFolder :: "LocalFolder option"
  l_modalOpen :: "LocalModal option"
  l_isSubmitting :: bool
  l_newItemName :: string
  l_selectedFile :: "SelectedFile option"

fun toStringNat :: "nat \<Rightarrow> string" where
  "toStringNat n =
     (if n < 10 then [''0123456789'' ! n]
      else toStringNat (n div 10) @ [''0123456789'' ! (n mod 10)])"

declare toStringNat.simps [simp del]

definition idOrNull :: "LocalFolder option \<Rightarrow> string option" where
  "idOrNull cf =
     (case cf of
        None \<Rightarrow> None
      | Some f \<Rightarrow> if lfo_id f = [] then None else Some (lfo_id f))"

definition handleCreate_local :: "nat \<Rightarrow> nat \<Rightarrow> LocalDashboard \<Rightarrow> LocalDashboard" where
  "handleCreate_local nowId nowStamp st =
     (let ident = toStringNat nowId;
          seconds = nowStamp div 1000;
          st1 =
            (case l_modalOpen st of
               Some LocalFolderModal \<Rightarrow>
                 st\<lparr>l_folders :=
                      \<lparr>lfo_id = ident,
                       lfo_name = orElse (l_newItemName st) ''Untitled Folder'',
                       lfo_parentId = idOrNull (l_currentFolder st),
                       lfo_createdAt = seconds\<rparr> # l_folders st\<rparr>
             | Some LocalFileModal \<Rightarrow>
                 (case l_selectedFile st of
                    None \<Rightarrow> st
                  | Some f \<Rightarrow>
                      st\<lparr>l_files :=
                           \<lparr>lf_id = ident,
                            lf_name = orElse (l_newItemName st) (sf_name f),
                            lf_size = sf_size f,
                            lf_type = (if take 6 (sf_type f) = ''image/'' then ''image'' else ''doc''),
                            lf_mimeType = sf_type f,
                            lf_folderId = idOrNull (l_currentFolder st),
                            lf_downloadURL = ''#'',
                            lf_createdAt = seconds\<rparr> # l_files st\<rparr>)
             | None \<Rightarrow> st)
      in st1\<lparr>l_modalOpen := None, l_isSubmitting := False, l_newItemName := []\<rparr>)"

section \<open>The sign-in dialog\<close>

text \<open>
  \<open>src/components/AuthModal.tsx\<close>. The identity provider is behind an SDK as well: every
  call either rejects with an error code or resolves, as the outcome record says. A
  resolved \<open>createUserWithEmailAndPassword\<close>, \<open>signInWithEmailAndPassword\<close> or
  \<open>signInWithPopup\<close> leaves its user signed in with the provider, a resolved \<open>signOut\<close>
  leaves nobody signed in. \<open>getFirebaseErrorMessage\<close> lives outside the sources at hand and
  is a parameter, \<open>msg\<close>. \<open>onClose()\<close> and the assignment to \<open>window.location.hash\<close> are
  recorded as effects.
\<close>

record AuthUser =
  au_uid :: string
  au_emailVerified :: bool

datatype AuthTab = SignInTab | SignUpTab

datatype Mode = DefaultMode | ForgotPassword | ResetSent | VerificationSent

record AuthModal =
  a_activeTab :: AuthTab
  a_mode :: Mode
  a_email :: string
  a_password :: string
  a_showPassword :: bool
  a_isLoading :: bool
  a_error :: "string option"

datatype auth_effect =
    CreateUserWithEmailAndPassword string string
  | SignInWithEmailAndPassword string string
  | SignInWithPopup
  | SendEmailVerification AuthUser
  | SignOut
  | SendPasswordResetEmail string
  | OnClose
  | SetLocationHash string
  | ConsoleErr string

record auth_outcome =
  oc_createUser :: "string + AuthUser"
  oc_signIn :: "string + AuthUser"
  oc_popup :: "string + AuthUser"
  oc_sendVerification :: "string option"
  oc_signOut :: "string option"
  oc_sendReset :: "string option"

text \<open>\<open>ar_currentUser\<close> is who is signed in with the provider when the handler is done.\<close>

record auth_run =
  ar_state :: AuthModal
  ar_currentUser :: "AuthUser option"
  ar_effects :: "auth_effect list"

definition caught :: "(string \<Rightarrow> string) \<Rightarrow> AuthModal \<Rightarrow> AuthUser option \<Rightarrow> auth_effect list \<Rightarrow> string \<Rightarrow> auth_run" where
  "caught msg st cur es err =
     \<lparr>ar_state = st\<lparr>a_error := Some (msg err), a_isLoading := False\<rparr>,
      ar_currentUser = cur,
      ar_effects = es @ [ConsoleErr err]\<rparr>"

definition handleSignUp :: "(string \<Rightarrow> string) \<Rightarrow> auth_outcome \<Rightarrow> AuthModal \<Rightarrow> AuthUser option \<Rightarrow> auth_run" where
  "handleSignUp msg oc st cur =
     (let st1 = st\<lparr>a_error := None, a_isLoading := True\<rparr>;
          call = CreateUserWithEmailAndPassword (a_email st) (a_password st)
      in
      if a_email st = [] \<or> a_password st = []
      then \<lparr>ar_state = st1\<lparr>a_error := Some ''Please fill in all required fields.'',
                             a_isLoading := False\<rparr>,
            ar_currentUser = cur, ar_effects = []\<rparr>
      else
        (case oc_createUser oc of
           Inl err \<Rightarrow> caught msg st1 cur [call] err
         | Inr u \<Rightarrow>
             (case oc_sendVerification oc of
                Some err \<Rightarrow> caught msg st1 (Some u) [call, SendEmailVerification u] err
              | None \<Rightarrow>
                  (case oc_signOut oc of
                     Some err \<Rightarrow>
                       caught msg st1 (Some u) [call, SendEmailVerification u, SignOut] err
                   | None \<Rightarrow>
                       \<lparr>ar_state = st1\<lparr>a_mode := VerificationSent, a_isLoading := False\<rparr>,
                        ar_currentUser = None,
                        ar_effects = [call, SendEmailVerification u, SignOut]\<rparr>))))"

definition handleSignIn :: "(string \<Rightarrow> string) \<Rightarrow> auth_outcome \<Rightarrow> AuthModal \<Rightarrow> AuthUser option \<Rightarrow> auth_run" where
  "handleSignIn msg oc st cur =
     (let st1 = st\<lparr>a_error := None, a_isLoading := True\<rparr>;
          call = SignInWithEmailAndPassword (a_email st) (a_password st)
      in
      if a_email st = [] \<or> a_password st = []
      then \<lparr>ar_state = st1\<lparr>a_error := Some ''Please enter both email and password.'',
                             a_isLoading := False\<rparr>,
            ar_currentUser = cur, ar_effects = []\<rparr>
      else
        (case oc_signIn oc of
           Inl err \<Rightarrow> caught msg st1 cur [call] err
         | Inr u \<Rightarrow>
             if \<not> au_emailVerified u
             then
               (case oc_sendVerification oc of
                  Some err \<Rightarrow> caught msg st1 (Some u) [call, SendEmailVerification u] err
                | None \<Rightarrow>
                    (case oc_signOut oc of
                       Some err \<Rightarrow>
                         caught msg st1 (Some u) [call, SendEmailVerification u, SignOut] err
                     | None \<Rightarrow>
                         \<lparr>ar_state = st1\<lparr>a_mode := VerificationSent, a_isLoading := False\<rparr>,
                          ar_currentUser = None,
                          ar_effects = [call, SendEmailVerification u, SignOut]\<rparr>))
             else
               \<lparr>ar_state = st1\<lparr>a_isLoading := False\<rparr>,
                ar_currentUser = Some u,
                ar_effects = [call, OnClose, SetLocationHash ''#/dashboard'']\<rparr>))"

definition caughtPopup :: "(string \<Rightarrow> string) \<Rightarrow> AuthModal \<Rightarrow> AuthUser option \<Rightarrow> auth_effect list \<Rightarrow> string \<Rightarrow> auth_run" where
  "caughtPopup msg st cur es err =
     \<lparr>ar_state =
        (if err \<noteq> ''auth/popup-closed-by-user''
         then st\<lparr>a_error := Some (msg err), a_isLoading := False\<rparr>
         else st\<lparr>a_isLoading := False\<rparr>),
      ar_currentUser = cur,
      ar_effects = es @ [ConsoleErr err]\<rparr>"

definition handleGoogleSignIn :: "(string \<Rightarrow> string) \<Rightarrow> auth_outcome \<Rightarrow> AuthModal \<Rightarrow> AuthUser option \<Rightarrow> auth_run" where
  "handleGoogleSignIn msg oc st cur =
     (let st1 = st\<lparr>a_error := None, a_isLoading := True\<rparr> in
      (case oc_popup oc of
         Inl err \<Rightarrow> caughtPopup msg st1 cur [SignInWithPopup] err
       | Inr u \<Rightarrow>
           if \<not> au_emailVerified u
           then
             (case oc_sendVerification oc of
                Some err \<Rightarrow>
                  caughtPopup msg st1 (Some u) [SignInWithPopup, SendEmailVerification u] err
              | None \<Rightarrow>
                  (case oc_signOut oc of
                     Some err \<Rightarrow>
                       caughtPopup msg st1 (Some u)
                         [SignInWithPopup, SendEmailVerification u, SignOut] err
                   | None \<Rightarrow>
                       \<lparr>ar_state = st1\<lparr>a_mode := VerificationSent, a_isLoading := False\<rparr>,
                        ar_currentUser = None,
                        ar_effects = [SignInWithPopup, SendEmailVerification u, SignOut]\<rparr>))
           else
             \<lparr>ar_state = st1\<lparr>a_isLoading := False\<rparr>,
              ar_currentUser = Some u,
              ar_effects = [SignInWithPopup, OnClose, SetLocationHash ''#/dashboard'']\<rparr>))"

definition handlePasswordReset :: "(string \<Rightarrow> string) \<Rightarrow> auth_outcome \<Rightarrow> AuthModal \<Rightarrow> AuthUser option \<Rightarrow> auth_run" where
  "handlePasswordReset msg oc st cur =
     (let st0 = st\<lparr>a_error := None\<rparr> in
      if a_email st = []
      then \<lparr>ar_state = st0\<lparr>a_error := Some ''Please enter your email address.''\<rparr>,
            ar_currentUser = cur, ar_effects = []\<rparr>
      else
        (case oc_sendReset oc of
           Some err \<Rightarrow>
             caught msg (st0\<lparr>a_isLoading := True\<rparr>) cur [SendPasswordResetEmail (a_email st)] err
         | None \<Rightarrow>
             \<lparr>ar_state = st0\<lparr>a_mode := ResetSent, a_isLoading := False\<rparr>,
              ar_currentUser = cur,
              ar_effects = [SendPasswordResetEmail (a_email st)]\<rparr>))"

section \<open>Initial states and sample data\<close>

text \<open>The initial values of the \<open>useState\<close> calls of the two components.\<close>

definition initialDashboard :: "string option \<Rightarrow> Dashboard" where
  "initialDashboard u =
     \<lparr>user = u, folders = [], files = [], notes' = [], members = [],
      activeTab = Overview, currentFolderId = None, isLoading = True, isSubmitting = False,
      uploadProgress = ProgressZero, searchQuery = [], isUpgradeModalOpen = False,
      modalOpen = None, deleteConfirmation = None, selectedFile = None, formData = emptyForm\<rparr>"

definition initialLocalDashboard :: LocalDashboard where
  "initialLocalDashboard =
     \<lparr>l_folders = [], l_files = [], l_currentFolder = None, l_modalOpen = None,
      l_isSubmitting = False, l_newItemName = [], l_selectedFile = None\<rparr>"

definition initialAuthModal :: AuthModal where
  "initialAuthModal =
     \<lparr>a_activeTab = SignInTab, a_mode = DefaultMode, a_email = [], a_password = [],
      a_showPassword = False, a_isLoading = False, a_error = None\<rparr>"

text \<open>A small vault of user \<open>u1\<close>: one folder holding one file, and one note.\<close>

definition sampleFolder :: FolderItem where
  "sampleFolder = \<lparr>folder_id = ''d1'', folder_name = ''Plans'', folder_createdAt = 10\<rparr>"

definition sampleFile :: FileItem where
  "sampleFile =
     \<lparr>file_id = ''f1'', file_name = ''Report.pdf'', file_size = 2048,
      file_type = ''application/pdf'', file_folderId = Some ''d1'',
      file_storagePath = ''user_uploads/u1/t1-Report.pdf'',
      file_downloadURL = ''https://files.example/t1'', file_createdAt = 20\<rparr>"

definition sampleNote :: NoteItem where
  "sampleNote =
     \<lparr>note_id = ''n1'', note_title = ''Alpha'', note_content = ''first'', note_createdAt = 30\<rparr>"

definition sampleBackend :: backend where
  "sampleBackend =
     \<lparr>folderDocs = [(''users/u1/folders'', sampleFolder)],
      fileDocs = [(''users/u1/files'', sampleFile)],
      noteDocs = [(''users/u1/notes'', sampleNote)],
      memberDocs = [],
      blobs = [''user_uploads/u1/t1-Report.pdf'']\<rparr>"

definition sampleDashboard :: Dashboard where
  "sampleDashboard =
     (initialDashboard (Some ''u1''))
       \<lparr>folders := [sampleFolder], files := [sampleFile], notes' := [sampleNote],
        isLoading := False\<rparr>"

text \<open>A file picked for upload, SDK calls that all resolve, and a vault at the limit.\<close>

definition sampleUpload :: SelectedFile where
  "sampleUpload = \<lparr>sf_name = ''Budget.xlsx'', sf_size = 4096, sf_type = ''application/vnd.ms-excel''\<rparr>"

definition sampleCreate :: create_outcome where
  "sampleCreate =
     \<lparr>oc_addDoc = Inr (''x9'', 40), oc_tempId = ''t9'', oc_progress = [(1024, 4096), (4096, 4096)],
      oc_upload = None, oc_getDownloadURL = Inr ''https://files.example/t9''\<rparr>"

definition fullDashboard :: Dashboard where
  "fullDashboard =
     sampleDashboard\<lparr>files := replicate 5 sampleFile, modalOpen := Some FileModal,
                     selectedFile := Some sampleUpload\<rparr>"

text \<open>A backend that also holds a folder of another user, \<open>u2\<close>.\<close>

definition sharedBackend :: backend where
  "sharedBackend =
     \<lparr>folderDocs =
        [(''users/u1/folders'', sampleFolder),
         (''users/u2/folders'', \<lparr>folder_id = ''d2'', folder_name = ''Theirs'', folder_createdAt = 15\<rparr>),
         (''users/u1/folders'', \<lparr>folder_id = ''d3'', folder_name = ''Later'', folder_createdAt = 25\<rparr>)],
      fileDocs = [(''users/u1/files'', sampleFile)],
      noteDocs = [(''users/u1/notes'', sampleNote)],
      memberDocs = [],
      blobs = [''user_uploads/u1/t1-Report.pdf'']\<rparr>"

text \<open>A filled-in sign-in form, an account whose email is not verified, and a provider whose calls all resolve.\<close>

definition unverifiedUser :: AuthUser where
  "unverifiedUser = \<lparr>au_uid = ''u1'', au_emailVerified = False\<rparr>"

definition filledAuthModal :: AuthModal where
  "filledAuthModal = initialAuthModal\<lparr>a_email := ''ann@mail.example'', a_password := ''hunter22''\<rparr>"

definition allResolve :: auth_outcome where
  "allResolve =
     \<lparr>oc_createUser = Inr unverifiedUser, oc_signIn = Inr unverifiedUser,
      oc_popup = Inr unverifiedUser, oc_sendVerification = None, oc_signOut = None,
      oc_sendReset = None\<rparr>"

section \<open>Deleting\<close>

lemmas run_simps = settled_def pending_def deleteRecord_def Let_def truthy_def

lemmas sample_simps =
  initialDashboard_def sampleDashboard_def sampleBackend_def sampleFolder_def sampleFile_def
  sampleNote_def emptyForm_def sampleUpload_def sampleCreate_def

text \<open>
  C3. When the blob-deletion step of a confirmed file deletion fails (\<open>deleteObject\<close>
  rejects), the handler goes to its \<open>catch\<close>: \<open>deleteDoc\<close> is never called, the backend is
  as it was, so the file's record is still in the store when the handler is done.
\<close>

theorem confirmDeletion_blob_failure_keeps_record:
  assumes "user st = Some uid"
    and "deleteConfirmation st = Some dc"
    and "dc_type dc = Files"
    and "dc_storagePath dc = Some p"
    and "p \<noteq> []"
    and "oc_deleteObject oc = Some err"
  shows "r_settled (confirmDeletion oc st b)
       \<and> r_backend (confirmDeletion oc st b) = b
       \<and> fileDocs (r_backend (confirmDeletion oc st b)) = fileDocs b
       \<and> r_effects (confirmDeletion oc st b) = [DeleteObject p, ConsoleError err]"
  using assms by (simp add: confirmDeletion_def run_simps)

theorem confirmDeletion_blob_failure_keeps_record_witness:
  "(''users/u1/files'', sampleFile)
     \<in> set (fileDocs (r_backend (confirmDeletion
          \<lparr>oc_deleteObject = Some ''storage/unauthorized'', oc_deleteDoc = None\<rparr>
          (fst (step (AskDeleteFile sampleFile) (sampleDashboard, sampleBackend)))
          sampleBackend)))
   \<and> r_effects (confirmDeletion
          \<lparr>oc_deleteObject = Some ''storage/unauthorized'', oc_deleteDoc = None\<rparr>
          (fst (step (AskDeleteFile sampleFile) (sampleDashboard, sampleBackend)))
          sampleBackend)
       = [DeleteObject ''user_uploads/u1/t1-Report.pdf'', ConsoleError ''storage/unauthorized'']"
proof -
  let ?st = "fst (step (AskDeleteFile sampleFile) (sampleDashboard, sampleBackend))"
  let ?oc = "\<lparr>oc_deleteObject = Some ''storage/unauthorized'', oc_deleteDoc = None\<rparr>"
  let ?dc = "\<lparr>dc_id = ''f1'', dc_type = Files, dc_name = ''Report.pdf'',
               dc_storagePath = Some ''user_uploads/u1/t1-Report.pdf''\<rparr>"
  have u: "user ?st = Some ''u1''" by (simp add: sample_simps)
  have d: "deleteConfirmation ?st = Some ?dc" by (simp add: sample_simps)
  have t: "dc_type ?dc = Files" by simp
  have s: "dc_storagePath ?dc = Some ''user_uploads/u1/t1-Report.pdf''" by simp
  have n: "''user_uploads/u1/t1-Report.pdf'' \<noteq> []" by simp
  have f: "oc_deleteObject ?oc = Some ''storage/unauthorized''" by simp
  from confirmDeletion_blob_failure_keeps_record [OF u d t s n f, of sampleBackend]
  show ?thesis by (simp add: sampleBackend_def)
qed

text \<open>
  C4. A confirmed file deletion calls \<open>deleteObject\<close> first and \<open>deleteDoc\<close> second, and
  nothing after them except the console message of the \<open>catch\<close>. The backend follows the
  calls that resolved: once \<open>deleteObject\<close> has resolved no object is left at the storage
  path, and the file's record is removed exactly when \<open>deleteDoc\<close> has resolved as well;
  folders, notes and members are untouched. When the blob deletion resolves and the record
  deletion rejects, the handler completes with the record still in the store and no object
  left at its storage path; the confirmation stays open. When both resolve, blob and record
  are gone and the confirmation is closed.
\<close>

theorem confirmDeletion_blob_first_no_rollback:
  assumes "user st = Some uid"
    and "deleteConfirmation st = Some dc"
    and "dc_type dc = Files"
    and "dc_storagePath dc = Some p"
    and "p \<noteq> []"
  shows "r_effects (confirmDeletion oc st b) =
           (case oc_deleteObject oc of
              Some e \<Rightarrow> [DeleteObject p, ConsoleError e]
            | None \<Rightarrow>
                (case oc_deleteDoc oc of
                   Some e \<Rightarrow>
                     [DeleteObject p, DeleteDoc (''users/'' @ uid @ ''/files'') (dc_id dc),
                      ConsoleError e]
                 | None \<Rightarrow>
                     [DeleteObject p, DeleteDoc (''users/'' @ uid @ ''/files'') (dc_id dc)]))
       \<and> (oc_deleteObject oc = None \<and> oc_deleteDoc oc \<noteq> None \<longrightarrow>
            r_settled (confirmDeletion oc st b)
          \<and> fileDocs (r_backend (confirmDeletion oc st b)) = fileDocs b
          \<and> p \<notin> set (blobs (r_backend (confirmDeletion oc st b)))
          \<and> deleteConfirmation (r_state (confirmDeletion oc st b)) = Some dc)
       \<and> blobs (r_backend (confirmDeletion oc st b)) =
           (case oc_deleteObject oc of
              Some e \<Rightarrow> blobs b
            | None \<Rightarrow> removeAll p (blobs b))
       \<and> fileDocs (r_backend (confirmDeletion oc st b)) =
           (case oc_deleteObject oc of
              Some e \<Rightarrow> fileDocs b
            | None \<Rightarrow>
                (case oc_deleteDoc oc of
                   Some e \<Rightarrow> fileDocs b
                 | None \<Rightarrow>
                     filter (\<lambda>d. \<not> (fst d = ''users/'' @ uid @ ''/files'' \<and> file_id (snd d) = dc_id dc))
                       (fileDocs b)))
       \<and> folderDocs (r_backend (confirmDeletion oc st b)) = folderDocs b
       \<and> noteDocs (r_backend (confirmDeletion oc st b)) = noteDocs b
       \<and> memberDocs (r_backend (confirmDeletion oc st b)) = memberDocs b
       \<and> (oc_deleteObject oc = None \<and> oc_deleteDoc oc = None \<longrightarrow>
            r_settled (confirmDeletion oc st b)
          \<and> p \<notin> set (blobs (r_backend (confirmDeletion oc st b)))
          \<and> (\<forall>f. (''users/'' @ uid @ ''/files'', f)
                    \<in> set (fileDocs (r_backend (confirmDeletion oc st b)))
                  \<longrightarrow> file_id f \<noteq> dc_id dc)
          \<and> deleteConfirmation (r_state (confirmDeletion oc st b)) = None)"
  using assms
  by (auto simp add: confirmDeletion_def run_simps deleteObject_def removeDoc_def
      split: option.splits)

theorem confirmDeletion_blob_first_no_rollback_witness:
  "r_effects (confirmDeletion
       \<lparr>oc_deleteObject = None, oc_deleteDoc = Some ''unavailable''\<rparr>
       (fst (step (AskDeleteFile sampleFile) (sampleDashboard, sampleBackend)))
       sampleBackend)
     = [DeleteObject ''user_uploads/u1/t1-Report.pdf'',
        DeleteDoc ''users/u1/files'' ''f1'',
        ConsoleError ''unavailable'']
   \<and> (''users/u1/files'', sampleFile)
       \<in> set (fileDocs (r_backend (confirmDeletion
            \<lparr>oc_deleteObject = None, oc_deleteDoc = Some ''unavailable''\<rparr>
            (fst (step (AskDeleteFile sampleFile) (sampleDashboard, sampleBackend)))
            sampleBackend)))
   \<and> file_storagePath sampleFile
       \<notin> set (blobs (r_backend (confirmDeletion
            \<lparr>oc_deleteObject = None, oc_deleteDoc = Some ''unavailable''\<rparr>
            (fst (step (AskDeleteFile sampleFile) (sampleDashboard, sampleBackend)))
            sampleBackend)))
   \<and> file_storagePath sampleFile \<in> set (blobs sampleBackend)
   \<and> (''users/u1/files'', sampleFile) \<in> set (fileDocs sampleBackend)
   \<and> r_effects (confirmDeletion
       \<lparr>oc_deleteObject = None, oc_deleteDoc = None\<rparr>
       (fst (step (AskDeleteFile sampleFile) (sampleDashboard, sampleBackend)))
       sampleBackend)
     = [DeleteObject ''user_uploads/u1/t1-Report.pdf'', DeleteDoc ''users/u1/files'' ''f1'']
   \<and> fileDocs (r_backend (confirmDeletion
       \<lparr>oc_deleteObject = None, oc_deleteDoc = None\<rparr>
       (fst (step (AskDeleteFile sampleFile) (sampleDashboard, sampleBackend)))
       sampleBackend)) = []
   \<and> blobs (r_backend (confirmDeletion
       \<lparr>oc_deleteObject = None, oc_deleteDoc = None\<rparr>
       (fst (step (AskDeleteFile sampleFile) (sampleDashboard, sampleBackend)))
       sampleBackend)) = []
   \<and> folderDocs (r_backend (confirmDeletion
       \<lparr>oc_deleteObject = None, oc_deleteDoc = None\<rparr>
       (fst (step (AskDeleteFile sampleFile) (sampleDashboard, sampleBackend)))
       sampleBackend)) = [(''users/u1/folders'', sampleFolder)]"
proof -
  let ?st = "fst (step (AskDeleteFile sampleFile) (sampleDashboard, sampleBackend))"
  let ?oc = "\<lparr>oc_deleteObject = None, oc_deleteDoc = Some ''unavailable''\<rparr>"
  let ?ok = "\<lparr>oc_deleteObject = None, oc_deleteDoc = None\<rparr>"
  let ?dc = "\<lparr>dc_id = ''f1'', dc_type = Files, dc_name = ''Report.pdf'',
               dc_storagePath = Some ''user_uploads/u1/t1-Report.pdf''\<rparr>"
  have u: "user ?st = Some ''u1''" by (simp add: sample_simps)
  have d: "deleteConfirmation ?st = Some ?dc" by (simp add: sample_simps)
  have t: "dc_type ?dc = Files" by simp
  have s: "dc_storagePath ?dc = Some ''user_uploads/u1/t1-Report.pdf''" by simp
  have n: "''user_uploads/u1/t1-Report.pdf'' \<noteq> []" by simp
  from confirmDeletion_blob_first_no_rollback [OF u d t s n, of ?oc sampleBackend]
       confirmDeletion_blob_first_no_rollback [OF u d t s n, of ?ok sampleBackend]
  show ?thesis by (simp add: sampleBackend_def sampleFile_def)
qed

text \<open>
  C10. A confirmed folder deletion issues one \<open>deleteDoc\<close> on the folder's own document and
  nothing else: no \<open>deleteObject\<close>, and the file, note and member documents and the blobs
  are as before. A file whose \<open>folderId\<close> names the deleted folder keeps its record, its
  \<open>folderId\<close> and its blob.
\<close>

theorem confirmDeletion_folder_no_cascade:
  assumes "user st = Some uid"
    and "deleteConfirmation st = Some dc"
    and "dc_type dc = Folders"
  shows "fileDocs (r_backend (confirmDeletion oc st b)) = fileDocs b
       \<and> blobs (r_backend (confirmDeletion oc st b)) = blobs b
       \<and> noteDocs (r_backend (confirmDeletion oc st b)) = noteDocs b
       \<and> memberDocs (r_backend (confirmDeletion oc st b)) = memberDocs b
       \<and> folderDocs (r_backend (confirmDeletion oc st b)) =
           (case oc_deleteDoc oc of
              None \<Rightarrow>
                filter (\<lambda>d. \<not> (fst d = ''users/'' @ uid @ ''/folders'' \<and> folder_id (snd d) = dc_id dc))
                  (folderDocs b)
            | Some e \<Rightarrow> folderDocs b)
       \<and> r_effects (confirmDeletion oc st b) =
           (case oc_deleteDoc oc of
              None \<Rightarrow> [DeleteDoc (''users/'' @ uid @ ''/folders'') (dc_id dc)]
            | Some e \<Rightarrow> [DeleteDoc (''users/'' @ uid @ ''/folders'') (dc_id dc), ConsoleError e])"
  using assms
  by (simp add: confirmDeletion_def run_simps removeDoc_def split: option.splits)

theorem confirmDeletion_folder_no_cascade_witness:
  "file_folderId sampleFile = Some (folder_id sampleFolder)
   \<and> folderDocs (r_backend (confirmDeletion
        \<lparr>oc_deleteObject = None, oc_deleteDoc = None\<rparr>
        (fst (step (AskDeleteFolder sampleFolder) (sampleDashboard, sampleBackend)))
        sampleBackend)) = []
   \<and> fileDocs (r_backend (confirmDeletion
        \<lparr>oc_deleteObject = None, oc_deleteDoc = None\<rparr>
        (fst (step (AskDeleteFolder sampleFolder) (sampleDashboard, sampleBackend)))
        sampleBackend)) = [(''users/u1/files'', sampleFile)]
   \<and> blobs (r_backend (confirmDeletion
        \<lparr>oc_deleteObject = None, oc_deleteDoc = None\<rparr>
        (fst (step (AskDeleteFolder sampleFolder) (sampleDashboard, sampleBackend)))
        sampleBackend)) = [file_storagePath sampleFile]"
proof -
  let ?st = "fst (step (AskDeleteFolder sampleFolder) (sampleDashboard, sampleBackend))"
  let ?oc = "\<lparr>oc_deleteObject = None, oc_deleteDoc = None\<rparr>"
  let ?dc = "\<lparr>dc_id = ''d1'', dc_type = Folders, dc_name = ''Plans'', dc_storagePath = None\<rparr>"
  have u: "user ?st = Some ''u1''" by (simp add: sample_simps)
  have d: "deleteConfirmation ?st = Some ?dc" by (simp add: sample_simps)
  have t: "dc_type ?dc = Folders" by simp
  from confirmDeletion_folder_no_cascade [OF u d t, of ?oc sampleBackend]
  show ?thesis by (simp add: sampleBackend_def sampleFile_def sampleFolder_def)
qed

section \<open>Creating\<close>

lemmas create_simps =
  handleCreate_def createFolder_def createFile_def createNote_def createMember_def
  afterCreate_def reportProgress_def

text \<open>
  With the file dialog open and five or more files in the \<open>files\<close> array, the handler
  returns before any SDK call, whoever is signed in and whether or not a file is selected.
\<close>

lemma handleCreate_limit_no_write:
  assumes "modalOpen st = Some FileModal" and "hasReachedLimit st"
  shows "r_effects (handleCreate oc st b) = [] \<and> r_backend (handleCreate oc st b) = b"
  using assms by (simp add: create_simps run_simps split: option.splits)

text \<open>
  C1. Once the \<open>files\<close> array of the signed-in user holds five or more items, submitting
  the file dialog with a file selected uploads nothing and writes no document, whichever
  folder is current (\<open>cf\<close>): no SDK call is issued, the backend is as it was, the four
  arrays are as they were, and the upgrade panel is open.
\<close>

theorem handleCreate_limit_blocks_upload:
  assumes "user st = Some uid"
    and "modalOpen st = Some FileModal"
    and "selectedFile st = Some f"
    and "length (files st) \<ge> 5"
  shows "r_effects (handleCreate oc (st\<lparr>currentFolderId := cf\<rparr>) b) = []
       \<and> r_backend (handleCreate oc (st\<lparr>currentFolderId := cf\<rparr>) b) = b
       \<and> r_settled (handleCreate oc (st\<lparr>currentFolderId := cf\<rparr>) b)
       \<and> isUpgradeModalOpen (r_state (handleCreate oc (st\<lparr>currentFolderId := cf\<rparr>) b))
       \<and> folders (r_state (handleCreate oc (st\<lparr>currentFolderId := cf\<rparr>) b)) = folders st
       \<and> files (r_state (handleCreate oc (st\<lparr>currentFolderId := cf\<rparr>) b)) = files st
       \<and> notes' (r_state (handleCreate oc (st\<lparr>currentFolderId := cf\<rparr>) b)) = notes' st
       \<and> members (r_state (handleCreate oc (st\<lparr>currentFolderId := cf\<rparr>) b)) = members st"
  using assms
  by (simp add: create_simps run_simps hasReachedLimit_def FILE_LIMIT_def)

theorem handleCreate_limit_blocks_upload_witness:
  "length (files fullDashboard) = 5
   \<and> r_effects (handleCreate sampleCreate (fullDashboard\<lparr>currentFolderId := Some ''d1''\<rparr>) sampleBackend) = []
   \<and> r_backend (handleCreate sampleCreate (fullDashboard\<lparr>currentFolderId := Some ''d1''\<rparr>) sampleBackend)
       = sampleBackend
   \<and> isUpgradeModalOpen
        (r_state (handleCreate sampleCreate (fullDashboard\<lparr>currentFolderId := Some ''d1''\<rparr>) sampleBackend))
   \<and> \<not> isUpgradeModalOpen fullDashboard"
proof -
  have u: "user fullDashboard = Some ''u1''" by (simp add: fullDashboard_def sample_simps)
  have m: "modalOpen fullDashboard = Some FileModal" by (simp add: fullDashboard_def)
  have f: "selectedFile fullDashboard = Some sampleUpload" by (simp add: fullDashboard_def)
  have n: "length (files fullDashboard) \<ge> 5" by (simp add: fullDashboard_def)
  from handleCreate_limit_blocks_upload [OF u m f n, of sampleCreate "Some ''d1''" sampleBackend]
  show ?thesis by (simp add: fullDashboard_def sample_simps)
qed

text \<open>
  C9. When \<open>addDoc\<close> resolves, the folder document stored has the name typed into the
  form, or \<open>Untitled Folder\<close> when the field was empty; the note document has the title
  typed, or \<open>Untitled Note\<close> when it was empty, and the content as typed; a member
  document has name and role as entered.
\<close>

theorem handleCreate_untitled_defaults:
  assumes "user st = Some uid" and "oc_addDoc oc = Inr (i, t)"
  shows "(modalOpen st = Some FolderModal \<longrightarrow>
            folderDocs (r_backend (handleCreate oc st b)) =
              folderDocs b @
                [(''users/'' @ uid @ ''/folders'',
                  \<lparr>folder_id = i,
                   folder_name = (if fd_name (formData st) = [] then ''Untitled Folder''
                                  else fd_name (formData st)),
                   folder_createdAt = t\<rparr>)])
       \<and> (modalOpen st = Some NoteModal \<longrightarrow>
            noteDocs (r_backend (handleCreate oc st b)) =
              noteDocs b @
                [(''users/'' @ uid @ ''/notes'',
                  \<lparr>note_id = i,
                   note_title = (if fd_title (formData st) = [] then ''Untitled Note''
                                 else fd_title (formData st)),
                   note_content = fd_content (formData st),
                   note_createdAt = t\<rparr>)])
       \<and> (modalOpen st = Some MemberModal \<longrightarrow>
            memberDocs (r_backend (handleCreate oc st b)) =
              memberDocs b @
                [(''users/'' @ uid @ ''/teamMembers'',
                  \<lparr>member_id = i,
                   member_name = fd_name (formData st),
                   member_role = fd_role (formData st),
                   member_createdAt = t\<rparr>)])"
  using assms by (simp add: create_simps run_simps orElse_def)


theorem handleCreate_untitled_defaults_witness:
  "fd_name (formData (sampleDashboard\<lparr>modalOpen := Some FolderModal\<rparr>)) = []
   \<and> folderDocs (r_backend (handleCreate sampleCreate
        (sampleDashboard\<lparr>modalOpen := Some FolderModal\<rparr>) sampleBackend))
       = [(''users/u1/folders'', sampleFolder),
          (''users/u1/folders'',
           \<lparr>folder_id = ''x9'', folder_name = ''Untitled Folder'', folder_createdAt = 40\<rparr>)]
   \<and> noteDocs (r_backend (handleCreate sampleCreate
        (sampleDashboard\<lparr>modalOpen := Some NoteModal,
           formData := emptyForm\<lparr>fd_content := ''body''\<rparr>\<rparr>) sampleBackend))
       = [(''users/u1/notes'', sampleNote),
          (''users/u1/notes'',
           \<lparr>note_id = ''x9'', note_title = ''Untitled Note'', note_content = ''body'',
            note_createdAt = 40\<rparr>)]
   \<and> memberDocs (r_backend (handleCreate sampleCreate
        (sampleDashboard\<lparr>modalOpen := Some MemberModal,
           formData := emptyForm\<lparr>fd_name := ''Sarah Jenkins'', fd_role := ''Editor''\<rparr>\<rparr>)
        sampleBackend))
       = [(''users/u1/teamMembers'',
           \<lparr>member_id = ''x9'', member_name = ''Sarah Jenkins'', member_role = ''Editor'',
            member_createdAt = 40\<rparr>)]"
proof -
  let ?sf = "sampleDashboard\<lparr>modalOpen := Some FolderModal\<rparr>"
  let ?sn = "sampleDashboard\<lparr>modalOpen := Some NoteModal,
               formData := emptyForm\<lparr>fd_content := ''body''\<rparr>\<rparr>"
  let ?sm = "sampleDashboard\<lparr>modalOpen := Some MemberModal,
               formData := emptyForm\<lparr>fd_name := ''Sarah Jenkins'', fd_role := ''Editor''\<rparr>\<rparr>"
  have uf: "user ?sf = Some ''u1''" by (simp add: sample_simps)
  have un: "user ?sn = Some ''u1''" by (simp add: sample_simps)
  have um: "user ?sm = Some ''u1''" by (simp add: sample_simps)
  have a: "oc_addDoc sampleCreate = Inr (''x9'', 40)" by (simp add: sampleCreate_def)
  from handleCreate_untitled_defaults [OF uf a, of sampleBackend]
       handleCreate_untitled_defaults [OF un a, of sampleBackend]
       handleCreate_untitled_defaults [OF um a, of sampleBackend]
  show ?thesis by (simp add: sample_simps)
qed

text \<open>
  Every file record the handler writes carries a storage path under \<open>user_uploads/\<close>, so
  the blob step of a later deletion of that file runs.
\<close>

lemma handleCreate_new_file_has_storagePath:
  "fileDocs (r_backend (handleCreate oc st b)) = fileDocs b
   \<or> (\<exists>p f. fileDocs (r_backend (handleCreate oc st b)) = fileDocs b @ [(p, f)]
          \<and> take 13 (file_storagePath f) = ''user_uploads/'')"
  by (simp add: create_simps run_simps
      split: option.splits sum.splits prod.splits ModalType.splits)

section \<open>Who writes the four arrays\<close>

lemma handleCreate_collections:
  "collections (r_state (handleCreate oc st b)) = collections st"
  by (simp add: create_simps run_simps collections_def
      split: option.splits sum.splits prod.splits ModalType.splits)

lemma confirmDeletion_collections:
  "collections (r_state (confirmDeletion oc st b)) = collections st"
  by (simp add: confirmDeletion_def run_simps collections_def split: option.splits)

lemma step_collections:
  "\<not> isSnapshot e \<Longrightarrow> collections (fst (step e (st, b))) = collections st"
proof (cases e)
  case (Submit oc)
  then show ?thesis using handleCreate_collections by simp
next
  case (ConfirmDelete oc)
  then show ?thesis using confirmDeletion_collections by simp
qed (simp_all add: collections_def)

text \<open>
  C8, as the code has it. In the store-backed dashboard neither \<open>handleCreate\<close> nor
  \<open>confirmDeletion\<close> changes the folders, files, notes or members array, whatever the SDK
  calls do, and an event that changes one of them is a snapshot callback. The local
  dashboard page (\<open>src/pages/Dashboard.tsx\<close>) has no backend: its \<open>handleCreate\<close> puts the
  new folder or file at the head of its own array.
\<close>

theorem only_snapshots_write_collections:
  "collections (r_state (handleCreate oc st b)) = collections st
   \<and> collections (r_state (confirmDeletion od st b)) = collections st
   \<and> (collections (fst (step e (st, b))) \<noteq> collections st \<longrightarrow> isSnapshot e)
   \<and> (l_modalOpen ls = Some LocalFolderModal \<longrightarrow>
        l_folders (handleCreate_local n1 n2 ls) =
          \<lparr>lfo_id = toStringNat n1,
           lfo_name = (if l_newItemName ls = [] then ''Untitled Folder'' else l_newItemName ls),
           lfo_parentId = idOrNull (l_currentFolder ls),
           lfo_createdAt = n2 div 1000\<rparr> # l_folders ls)
   \<and> (l_modalOpen ls = Some LocalFileModal \<and> l_selectedFile ls = Some f \<longrightarrow>
        l_files (handleCreate_local n1 n2 ls) =
          \<lparr>lf_id = toStringNat n1,
           lf_name = (if l_newItemName ls = [] then sf_name f else l_newItemName ls),
           lf_size = sf_size f,
           lf_type = (if take 6 (sf_type f) = ''image/'' then ''image'' else ''doc''),
           lf_mimeType = sf_type f,
           lf_folderId = idOrNull (l_currentFolder ls),
           lf_downloadURL = ''#'',
           lf_createdAt = n2 div 1000\<rparr> # l_files ls)"
proof -
  have 1: "collections (fst (step e (st, b))) \<noteq> collections st \<longrightarrow> isSnapshot e"
    using step_collections by blast
  have 2: "l_modalOpen ls = Some LocalFolderModal \<longrightarrow>
        l_folders (handleCreate_local n1 n2 ls) =
          \<lparr>lfo_id = toStringNat n1,
           lfo_name = (if l_newItemName ls = [] then ''Untitled Folder'' else l_newItemName ls),
           lfo_parentId = idOrNull (l_currentFolder ls),
           lfo_createdAt = n2 div 1000\<rparr> # l_folders ls"
    by (simp add: handleCreate_local_def Let_def orElse_def)
  have 3: "l_modalOpen ls = Some LocalFileModal \<and> l_selectedFile ls = Some f \<longrightarrow>
        l_files (handleCreate_local n1 n2 ls) =
          \<lparr>lf_id = toStringNat n1,
           lf_name = (if l_newItemName ls = [] then sf_name f else l_newItemName ls),
           lf_size = sf_size f,
           lf_type = (if take 6 (sf_type f) = ''image/'' then ''image'' else ''doc''),
           lf_mimeType = sf_type f,
           lf_folderId = idOrNull (l_currentFolder ls),
           lf_downloadURL = ''#'',
           lf_createdAt = n2 div 1000\<rparr> # l_files ls"
    by (simp add: handleCreate_local_def Let_def orElse_def)
  show ?thesis
    by (intro conjI handleCreate_collections confirmDeletion_collections 1 2 3)
qed

theorem only_snapshots_write_collections_witness:
  "collections (fst (step SnapshotFolders (initialDashboard (Some ''u1''), sampleBackend)))
     \<noteq> collections (initialDashboard (Some ''u1''))
   \<and> isSnapshot SnapshotFolders
   \<and> collections (r_state (handleCreate sampleCreate
        ((initialDashboard (Some ''u1''))\<lparr>modalOpen := Some FolderModal\<rparr>) sampleBackend))
     = collections (initialDashboard (Some ''u1''))
   \<and> length (folderDocs (r_backend (handleCreate sampleCreate
        ((initialDashboard (Some ''u1''))\<lparr>modalOpen := Some FolderModal\<rparr>) sampleBackend))) = 2
   \<and> length (folderDocs sampleBackend) = 1
   \<and> length (l_folders (handleCreate_local 5 6
        (initialLocalDashboard\<lparr>l_modalOpen := Some LocalFolderModal\<rparr>))) = 1
   \<and> length (l_files (handleCreate_local 5 6
        (initialLocalDashboard\<lparr>l_modalOpen := Some LocalFileModal,
           l_selectedFile := Some sampleUpload\<rparr>))) = 1"
proof -
  let ?st = "initialDashboard (Some ''u1'')"
  let ?sm = "(initialDashboard (Some ''u1''))\<lparr>modalOpen := Some FolderModal\<rparr>"
  let ?od = "\<lparr>oc_deleteObject = None, oc_deleteDoc = None\<rparr>"
  let ?lf = "initialLocalDashboard\<lparr>l_modalOpen := Some LocalFolderModal\<rparr>"
  let ?lu = "initialLocalDashboard\<lparr>l_modalOpen := Some LocalFileModal,
               l_selectedFile := Some sampleUpload\<rparr>"
  have c: "collections (fst (step SnapshotFolders (?st, sampleBackend))) \<noteq> collections ?st"
    by (simp add: collections_def onSnapshotFolders_def queryCreatedAtDesc_def collectionPath_def
        sample_simps)
  have f: "l_modalOpen ?lf = Some LocalFolderModal" by simp
  have u: "l_modalOpen ?lu = Some LocalFileModal \<and> l_selectedFile ?lu = Some sampleUpload"
    by simp
  have w: "length (folderDocs (r_backend (handleCreate sampleCreate ?sm sampleBackend))) = 2"
    by (simp add: create_simps run_simps sample_simps)
  note a = only_snapshots_write_collections
             [of sampleCreate ?st sampleBackend ?od SnapshotFolders ?lf 5 6 sampleUpload]
  note b = only_snapshots_write_collections
             [of sampleCreate ?sm sampleBackend ?od "Submit sampleCreate" ?lu 5 6 sampleUpload]
  from a c have s: "isSnapshot SnapshotFolders" by blast
  from a f have lf: "length (l_folders (handleCreate_local 5 6 ?lf)) = 1"
    by (simp add: initialLocalDashboard_def)
  from b u have lu: "length (l_files (handleCreate_local 5 6 ?lu)) = 1"
    by (simp add: initialLocalDashboard_def)
  from b have h: "collections (r_state (handleCreate sampleCreate ?sm sampleBackend)) = collections ?st"
    by (simp add: collections_def)
  from c s h w lf lu show ?thesis by (simp add: sampleBackend_def)
qed

text \<open>
  C8 as stated fails on the local dashboard page: submitting its folder dialog
  turns an empty folders array into one holding the new folder, with no listener involved.
\<close>

theorem local_handleCreate_writes_folders:
  "l_folders initialLocalDashboard = []
   \<and> l_folders (handleCreate_local 1700000000123 1700000000456
        (initialLocalDashboard\<lparr>l_modalOpen := Some LocalFolderModal, l_newItemName := ''Plans''\<rparr>))
       = [\<lparr>lfo_id = ''1700000000123'', lfo_name = ''Plans'', lfo_parentId = None,
           lfo_createdAt = 1700000000\<rparr>]"
  by (simp add: handleCreate_local_def initialLocalDashboard_def Let_def orElse_def idOrNull_def
        toStringNat.simps)

section \<open>The live views\<close>

lemma queryCreatedAtDesc_mset:
  "mset (queryCreatedAtDesc k p ds) = mset (map snd (filter (\<lambda>d. fst d = p) ds))"
  by (simp add: queryCreatedAtDesc_def)

lemma queryCreatedAtDesc_sorted:
  "sorted_wrt (\<lambda>x y. k x \<ge> k y) (queryCreatedAtDesc k p ds)"
proof -
  have "sorted (map k (sort_key k (map snd (filter (\<lambda>d. fst d = p) ds))))"
    by (rule sorted_sort_key)
  then have "sorted_wrt (\<lambda>x y. k x \<le> k y) (sort_key k (map snd (filter (\<lambda>d. fst d = p) ds)))"
    by (simp add: sorted_map)
  then show ?thesis
    by (simp add: queryCreatedAtDesc_def sorted_wrt_rev)
qed

text \<open>
  C6. For a signed-in user, each of the four listeners delivers exactly the documents
  stored under that user's own path (\<open>users/<uid>/folders\<close>, \<open>.../files\<close>, \<open>.../notes\<close>,
  \<open>.../teamMembers\<close>), ordered by creation time, newest first.
\<close>

theorem listeners_own_path_newest_first:
  assumes "user st = Some uid"
  shows "mset (folders (onSnapshotFolders b st)) =
           mset (map snd (filter (\<lambda>d. fst d = ''users/'' @ uid @ ''/folders'') (folderDocs b)))
       \<and> sorted_wrt (\<lambda>x y. folder_createdAt x \<ge> folder_createdAt y) (folders (onSnapshotFolders b st))
       \<and> mset (files (onSnapshotFiles b st)) =
           mset (map snd (filter (\<lambda>d. fst d = ''users/'' @ uid @ ''/files'') (fileDocs b)))
       \<and> sorted_wrt (\<lambda>x y. file_createdAt x \<ge> file_createdAt y) (files (onSnapshotFiles b st))
       \<and> mset (notes' (onSnapshotNotes b st)) =
           mset (map snd (filter (\<lambda>d. fst d = ''users/'' @ uid @ ''/notes'') (noteDocs b)))
       \<and> sorted_wrt (\<lambda>x y. note_createdAt x \<ge> note_createdAt y) (notes' (onSnapshotNotes b st))
       \<and> mset (members (onSnapshotMembers b st)) =
           mset (map snd (filter (\<lambda>d. fst d = ''users/'' @ uid @ ''/teamMembers'') (memberDocs b)))
       \<and> sorted_wrt (\<lambda>x y. member_createdAt x \<ge> member_createdAt y) (members (onSnapshotMembers b st))"
  using assms
  by (simp add: onSnapshotFolders_def onSnapshotFiles_def onSnapshotNotes_def
      onSnapshotMembers_def collectionPath_def queryCreatedAtDesc_mset queryCreatedAtDesc_sorted)

theorem listeners_own_path_newest_first_witness:
  "folders (onSnapshotFolders sharedBackend (initialDashboard (Some ''u1''))) =
     [\<lparr>folder_id = ''d3'', folder_name = ''Later'', folder_createdAt = 25\<rparr>, sampleFolder]
   \<and> sorted_wrt (\<lambda>x y. folder_createdAt x \<ge> folder_createdAt y)
        (folders (onSnapshotFolders sharedBackend (initialDashboard (Some ''u1''))))
   \<and> files (onSnapshotFiles sharedBackend (initialDashboard (Some ''u1''))) = [sampleFile]"
proof -
  have u: "user (initialDashboard (Some ''u1'')) = Some ''u1''"
    by (simp add: initialDashboard_def)
  from listeners_own_path_newest_first [OF u, of sharedBackend]
  show ?thesis
    by (simp add: onSnapshotFolders_def onSnapshotFiles_def collectionPath_def
        queryCreatedAtDesc_def sharedBackend_def sample_simps)
qed

section \<open>Searching\<close>

text \<open>\<open>includes\<close> is the substring test.\<close>

lemma includesStr_iff: "includesStr s q \<longleftrightarrow> (\<exists>ps ss. s = ps @ q @ ss)"
proof (induction s)
  case Nil
  then show ?case by auto
next
  case (Cons c cs)
  have pre: "take (length q) (c # cs) = q \<longleftrightarrow> (\<exists>ss. c # cs = q @ ss)"
    by (metis append_eq_conv_conj append_take_drop_id)
  have "(\<exists>ps ss. c # cs = ps @ q @ ss) \<longleftrightarrow> (\<exists>ss. c # cs = q @ ss) \<or> (\<exists>ps ss. cs = ps @ q @ ss)"
  proof
    assume "\<exists>ps ss. c # cs = ps @ q @ ss"
    then obtain ps ss where e: "c # cs = ps @ q @ ss" by blast
    show "(\<exists>ss. c # cs = q @ ss) \<or> (\<exists>ps ss. cs = ps @ q @ ss)"
    proof (cases ps)
      case Nil
      with e show ?thesis by auto
    next
      case (Cons p ps')
      with e have "cs = ps' @ q @ ss" by simp
      then show ?thesis by blast
    qed
  next
    assume "(\<exists>ss. c # cs = q @ ss) \<or> (\<exists>ps ss. cs = ps @ q @ ss)"
    then show "\<exists>ps ss. c # cs = ps @ q @ ss"
    proof
      assume "\<exists>ss. c # cs = q @ ss"
      then obtain ss where "c # cs = [] @ q @ ss" by auto
      then show ?thesis by blast
    next
      assume "\<exists>ps ss. cs = ps @ q @ ss"
      then obtain ps ss where "cs = ps @ q @ ss" by blast
      then have "c # cs = (c # ps) @ q @ ss" by simp
      then show ?thesis by blast
    qed
  qed
  with Cons pre show ?case by simp
qed

text \<open>
  On the files tab the search is a case-insensitive substring match on the name, within
  the current folder; folders are listed at the root only.
\<close>

lemma filteredFiles_iff:
  "f \<in> set (filteredFiles st) \<longleftrightarrow>
     f \<in> set (files st)
     \<and> (if truthy (currentFolderId st) then file_folderId f = currentFolderId st
         else \<not> truthy (file_folderId f))
     \<and> (\<exists>ps ss. toLowerCase (file_name f) = ps @ toLowerCase (searchQuery st) @ ss)"
  by (simp add: filteredFiles_def includesStr_iff)

lemma filteredFolders_iff:
  "f \<in> set (filteredFolders st) \<longleftrightarrow>
     f \<in> set (folders st) \<and> \<not> truthy (currentFolderId st)
     \<and> (\<exists>ps ss. toLowerCase (folder_name f) = ps @ toLowerCase (searchQuery st) @ ss)"
  by (simp add: filteredFolders_def includesStr_iff)

text \<open>
  C5. The notes tab does not apply the search: with the query \<open>zzz\<close> the note titled
  \<open>Alpha\<close> is still rendered, while the same query hides the file on the files tab and
  \<open>rEPO\<close> finds \<open>Report.pdf\<close> there.
\<close>

theorem renderNotes_ignores_searchQuery:
  "renderNotes (sampleDashboard\<lparr>activeTab := NotesTab, searchQuery := ''zzz''\<rparr>) = [sampleNote]
   \<and> note_title sampleNote = ''Alpha''
   \<and> \<not> includesStr (toLowerCase (note_title sampleNote)) (toLowerCase ''zzz'')
   \<and> filteredFiles (sampleDashboard\<lparr>activeTab := FilesTab, currentFolderId := Some ''d1'',
        searchQuery := ''zzz''\<rparr>) = []
   \<and> filteredFiles (sampleDashboard\<lparr>activeTab := FilesTab, currentFolderId := Some ''d1'',
        searchQuery := ''rEPO''\<rparr>) = [sampleFile]"
  by (simp add: renderNotes_def filteredFiles_def sample_simps toLowerCase_def lowerChar_def truthy_def)

section \<open>Signing up and signing in\<close>

lemmas auth_simps = caught_def caughtPopup_def Let_def

text \<open>
  A sign-up with a non-empty email and password in which every call to the identity
  provider resolves issues exactly three calls, in this order: create the account, send
  the verification email to the new user, sign out. Afterwards nobody is signed in and
  the dialog shows the verification-sent state.
\<close>

lemma handleSignUp_sequence:
  assumes "a_email st \<noteq> []"
    and "a_password st \<noteq> []"
    and "oc_createUser oc = Inr u"
    and "oc_sendVerification oc = None"
    and "oc_signOut oc = None"
  shows "ar_effects (handleSignUp msg oc st cur) =
           [CreateUserWithEmailAndPassword (a_email st) (a_password st),
            SendEmailVerification u, SignOut]
       \<and> ar_currentUser (handleSignUp msg oc st cur) = None
       \<and> ar_state (handleSignUp msg oc st cur) =
           st\<lparr>a_error := None, a_isLoading := False, a_mode := VerificationSent\<rparr>"
  using assms by (simp add: handleSignUp_def auth_simps)

lemma handleSignUp_sequence_example:
  "ar_effects (handleSignUp (\<lambda>c. c) allResolve filledAuthModal None) =
     [CreateUserWithEmailAndPassword ''ann@mail.example'' ''hunter22'',
      SendEmailVerification unverifiedUser, SignOut]
   \<and> ar_currentUser (handleSignUp (\<lambda>c. c) allResolve filledAuthModal None) = None
   \<and> a_mode (ar_state (handleSignUp (\<lambda>c. c) allResolve filledAuthModal None)) = VerificationSent"
proof -
  have e: "a_email filledAuthModal \<noteq> []" by (simp add: filledAuthModal_def)
  have p: "a_password filledAuthModal \<noteq> []" by (simp add: filledAuthModal_def)
  have c: "oc_createUser allResolve = Inr unverifiedUser" by (simp add: allResolve_def)
  have v: "oc_sendVerification allResolve = None" by (simp add: allResolve_def)
  have s: "oc_signOut allResolve = None" by (simp add: allResolve_def)
  from handleSignUp_sequence [OF e p c v s, of "\<lambda>c. c" None]
  show ?thesis by (simp add: filledAuthModal_def initialAuthModal_def)
qed

text \<open>
  C7. A sign-up whose account is created but whose verification email is refused (here
  with \<open>auth/network-request-failed\<close>) goes to the \<open>catch\<close> without calling \<open>signOut\<close>:
  the calls are create and send only, the new user is left signed in with the provider,
  and the dialog shows an error in its default mode instead of the verification-sent
  state.
\<close>

theorem handleSignUp_send_rejected_stays_signed_in:
  "ar_effects (handleSignUp msg
       (allResolve\<lparr>oc_sendVerification := Some ''auth/network-request-failed''\<rparr>)
       filledAuthModal None) =
     [CreateUserWithEmailAndPassword ''ann@mail.example'' ''hunter22'',
      SendEmailVerification unverifiedUser, ConsoleErr ''auth/network-request-failed'']
   \<and> SignOut \<notin> set (ar_effects (handleSignUp msg
        (allResolve\<lparr>oc_sendVerification := Some ''auth/network-request-failed''\<rparr>)
        filledAuthModal None))
   \<and> ar_currentUser (handleSignUp msg
        (allResolve\<lparr>oc_sendVerification := Some ''auth/network-request-failed''\<rparr>)
        filledAuthModal None) = Some unverifiedUser
   \<and> a_mode (ar_state (handleSignUp msg
        (allResolve\<lparr>oc_sendVerification := Some ''auth/network-request-failed''\<rparr>)
        filledAuthModal None)) = DefaultMode
   \<and> a_error (ar_state (handleSignUp msg
        (allResolve\<lparr>oc_sendVerification := Some ''auth/network-request-failed''\<rparr>)
        filledAuthModal None)) = Some (msg ''auth/network-request-failed'')
   \<and> a_email filledAuthModal \<noteq> []
   \<and> a_password filledAuthModal \<noteq> []"
  by (simp add: handleSignUp_def auth_simps allResolve_def filledAuthModal_def
      initialAuthModal_def unverifiedUser_def)

text \<open>The verification-sent state is reached by sign-up in no other way.\<close>

lemma handleSignUp_verification_sent_iff:
  assumes "a_mode st \<noteq> VerificationSent"
  shows "a_mode (ar_state (handleSignUp msg oc st cur)) = VerificationSent \<longleftrightarrow>
           a_email st \<noteq> [] \<and> a_password st \<noteq> [] \<and> (\<exists>u. oc_createUser oc = Inr u)
           \<and> oc_sendVerification oc = None \<and> oc_signOut oc = None"
  using assms
  by (auto simp add: handleSignUp_def auth_simps split: sum.splits option.splits)

text \<open>
  A sign-in that authenticates an account with an unverified email never closes the
  dialog and never sets the dashboard route; its second call is always the verification
  email; and when the verification-sent state is shown, the sign-out has resolved before.
\<close>

lemma handleSignIn_unverified:
  assumes "a_email st \<noteq> []" and "a_password st \<noteq> []"
    and "oc_signIn oc = Inr u" and "\<not> au_emailVerified u"
  shows "OnClose \<notin> set (ar_effects (handleSignIn msg oc st cur))"
    and "SetLocationHash h \<notin> set (ar_effects (handleSignIn msg oc st cur))"
    and "take 2 (ar_effects (handleSignIn msg oc st cur)) =
           [SignInWithEmailAndPassword (a_email st) (a_password st), SendEmailVerification u]"
    and "a_mode st \<noteq> VerificationSent \<Longrightarrow>
         a_mode (ar_state (handleSignIn msg oc st cur)) = VerificationSent \<Longrightarrow>
           ar_effects (handleSignIn msg oc st cur) =
             [SignInWithEmailAndPassword (a_email st) (a_password st),
              SendEmailVerification u, SignOut]
           \<and> ar_currentUser (handleSignIn msg oc st cur) = None"
  using assms
  by (auto simp add: handleSignIn_def auth_simps split: option.splits)

lemma handleGoogleSignIn_unverified:
  assumes "oc_popup oc = Inr u" and "\<not> au_emailVerified u"
  shows "OnClose \<notin> set (ar_effects (handleGoogleSignIn msg oc st cur))"
    and "SetLocationHash h \<notin> set (ar_effects (handleGoogleSignIn msg oc st cur))"
    and "take 2 (ar_effects (handleGoogleSignIn msg oc st cur)) =
           [SignInWithPopup, SendEmailVerification u]"
    and "a_mode st \<noteq> VerificationSent \<Longrightarrow>
         a_mode (ar_state (handleGoogleSignIn msg oc st cur)) = VerificationSent \<Longrightarrow>
           ar_effects (handleGoogleSignIn msg oc st cur) =
             [SignInWithPopup, SendEmailVerification u, SignOut]
           \<and> ar_currentUser (handleGoogleSignIn msg oc st cur) = None"
  using assms
  by (auto simp add: handleGoogleSignIn_def auth_simps split: option.splits if_splits)

text \<open>
  C2. When the verification email is refused (here with \<open>auth/too-many-requests\<close>), both
  sign-in handlers go to their \<open>catch\<close> without calling \<open>signOut\<close>: the account with the
  unverified email stays signed in with the provider, and the dialog stays in its default
  mode.
\<close>

theorem handleSignIn_send_rejected_no_signOut:
  "ar_effects (handleSignIn msg
       (allResolve\<lparr>oc_sendVerification := Some ''auth/too-many-requests''\<rparr>) filledAuthModal None) =
     [SignInWithEmailAndPassword ''ann@mail.example'' ''hunter22'',
      SendEmailVerification unverifiedUser, ConsoleErr ''auth/too-many-requests'']
   \<and> SignOut \<notin> set (ar_effects (handleSignIn msg
        (allResolve\<lparr>oc_sendVerification := Some ''auth/too-many-requests''\<rparr>) filledAuthModal None))
   \<and> ar_currentUser (handleSignIn msg
        (allResolve\<lparr>oc_sendVerification := Some ''auth/too-many-requests''\<rparr>) filledAuthModal None)
       = Some unverifiedUser
   \<and> au_emailVerified unverifiedUser = False
   \<and> a_mode (ar_state (handleSignIn msg
        (allResolve\<lparr>oc_sendVerification := Some ''auth/too-many-requests''\<rparr>) filledAuthModal None))
       = DefaultMode
   \<and> SignOut \<notin> set (ar_effects (handleGoogleSignIn msg
        (allResolve\<lparr>oc_sendVerification := Some ''auth/too-many-requests''\<rparr>) initialAuthModal None))
   \<and> ar_currentUser (handleGoogleSignIn msg
        (allResolve\<lparr>oc_sendVerification := Some ''auth/too-many-requests''\<rparr>) initialAuthModal None)
       = Some unverifiedUser"
  by (simp add: handleSignIn_def handleGoogleSignIn_def auth_simps allResolve_def
      filledAuthModal_def initialAuthModal_def unverifiedUser_def)

end
